theory Spec2Isabelle
  imports Main
begin

section \<open>JavaScript values and string primitives used by Tunnel.js\<close>

text \<open>
  The index variables of the two decoders are JavaScript numbers.  \<open>elementEnd\<close> of the
  WebSocket decoder is declared without a value (\<open>undefined\<close>), and \<open>parseInt\<close> yields
  \<open>NaN\<close> on a text without digits, so both values are part of the model.  Lengths are
  far below \<open>2^53\<close>, so the finite numbers are modelled as unbounded integers.
\<close>

datatype jsnum = Undefined | NaN | Num int

text \<open>\<open>x + 1\<close> for a variable \<open>x\<close> that may be \<open>undefined\<close> or \<open>NaN\<close>.\<close>

fun js_succ :: "jsnum \<Rightarrow> jsnum" where
  "js_succ (Num n) = Num (n + 1)"
| "js_succ Undefined = NaN"
| "js_succ NaN = NaN"

text \<open>\<open>a + x\<close> for a finite \<open>a\<close>.\<close>

fun js_plus :: "int \<Rightarrow> jsnum \<Rightarrow> jsnum" where
  "js_plus a (Num b) = Num (a + b)"
| "js_plus a Undefined = NaN"
| "js_plus a NaN = NaN"


text \<open>
  \<open>String.prototype.substring(start, end)\<close>: \<open>NaN\<close> and \<open>undefined\<close> as start are 0, an
  \<open>undefined\<close> end is the length of the string, a \<open>NaN\<close> end is 0; both are clamped to
  the string and swapped when start exceeds end.  A character of the model stands for
  one UTF-16 code unit, which is what \<open>length\<close>, \<open>substring\<close> and \<open>indexOf\<close> count.
\<close>

fun start_pos :: "string \<Rightarrow> jsnum \<Rightarrow> nat" where
  "start_pos s (Num i) = min (nat i) (length s)"
| "start_pos s Undefined = 0"
| "start_pos s NaN = 0"

fun end_pos :: "string \<Rightarrow> jsnum \<Rightarrow> nat" where
  "end_pos s (Num i) = min (nat i) (length s)"
| "end_pos s Undefined = length s"
| "end_pos s NaN = 0"

definition substring :: "string \<Rightarrow> jsnum \<Rightarrow> jsnum \<Rightarrow> string" where
  "substring s a b =
     (let i = start_pos s a; j = end_pos s b
      in take (max i j - min i j) (drop (min i j) s))"

text \<open>\<open>s.indexOf(c, from)\<close> for a one-character search string: \<open>-1\<close> when absent.\<close>

definition indexOf :: "string \<Rightarrow> char \<Rightarrow> int \<Rightarrow> int" where
  "indexOf s c from =
     (let k = min (nat from) (length s)
      in if c \<in> set (drop k s)
         then int (k + length (takeWhile (\<lambda>x. x \<noteq> c) (drop k s)))
         else - 1)"

text \<open>
  \<open>parseInt(string)\<close> without a radix: leading white space is skipped, a sign is read,
  a prefix \<open>0x\<close> or \<open>0X\<close> selects radix 16, and the longest prefix of digits of the
  radix is the value; no digit at all gives \<open>NaN\<close>.
\<close>

definition StrWhiteSpaceChar :: "char \<Rightarrow> bool" where
  "StrWhiteSpaceChar c = ((of_char c :: nat) \<in> {9, 10, 11, 12, 13, 32, 160})"

definition digitOf :: "char \<Rightarrow> nat" where
  "digitOf c =
     (let n = (of_char c :: nat)
      in if 48 \<le> n \<and> n \<le> 57 then n - 48
         else if 97 \<le> n \<and> n \<le> 102 then n - 87
         else if 65 \<le> n \<and> n \<le> 70 then n - 55
         else 36)"

definition isRadixDigit :: "nat \<Rightarrow> char \<Rightarrow> bool" where
  "isRadixDigit R c = (digitOf c < R)"

definition digitsValue :: "nat \<Rightarrow> string \<Rightarrow> nat" where
  "digitsValue R z = foldl (\<lambda>v c. v * R + digitOf c) 0 z"

definition parseInt :: "string \<Rightarrow> jsnum" where
  "parseInt input =
     (let s = dropWhile StrWhiteSpaceChar input;
          neg = (s \<noteq> [] \<and> hd s = CHR ''-'');
          s1 = (if s \<noteq> [] \<and> (hd s = CHR ''+'' \<or> hd s = CHR ''-'') then tl s else s);
          hex = (take 2 s1 = ''0x'' \<or> take 2 s1 = ''0X'');
          R = (if hex then 16 else 10);
          s2 = (if hex then drop 2 s1 else s1);
          z = takeWhile (isRadixDigit R) s2
      in if z = [] then NaN
         else Num ((if neg then - 1 else 1) * int (digitsValue R z)))"

text \<open>Number-to-string conversion of a string length (\<open>string.length + "."\<close>).\<close>

fun decimal :: "nat \<Rightarrow> string" where
  "decimal n =
     (if n < 10 then [char_of (48 + n)]
      else decimal (n div 10) @ [char_of (48 + n mod 10)])"

declare decimal.simps [simp del]

section \<open>The instruction encoder of \<open>sendMessage\<close>\<close>

text \<open>
  \<open>getElement\<close> and the message built by \<open>sendMessage\<close> (the same text in
  \<open>Guacamole.HTTPTunnel\<close> and \<open>Guacamole.WebSocketTunnel\<close>): the first element, then
  \<open>","\<close> and an element for each further argument, then \<open>";"\<close>.  The argument list is
  not empty where the message is built.
\<close>

definition getElement :: "string \<Rightarrow> string" where
  "getElement v = decimal (length v) @ ''.'' @ v"

definition encodeMessage :: "string list \<Rightarrow> string" where
  "encodeMessage args =
     foldl (\<lambda>m a. m @ '','' @ getElement a) (getElement (hd args)) (tl args) @ '';''"

section \<open>The streaming decoder of the HTTP tunnel (\<open>parseResponse\<close>)\<close>

type_synonym instruction = "string \<times> string list"

text \<open>
  The variables of \<open>handleResponse\<close> that the parse loop reads and writes.  The
  WebSocket decoder has the same three variables, local to one message.
\<close>

record reader =
  elementEnd :: jsnum
  startIndex :: int
  elements :: "string list"







text \<open>The values \<open>handleResponse\<close> gives the three variables for a new response.\<close>

definition initialReader :: reader where
  "initialReader = \<lparr>elementEnd = Num (- 1), startIndex = 0, elements = []\<rparr>"

section \<open>The base tunnel (\<open>Guacamole.Tunnel\<close>)\<close>

datatype tunnel_state = CONNECTING | OPEN | CLOSED | UNSTABLE

text \<open>
  Modelled from the spec: \<open>Guacamole.Status\<close> and its table \<open>Guacamole.Status.Code\<close>
  are not among the sources.  The codes the tunnels name are constructors of their own
  (the tunnels only compare codes for equality); every other numeric code is
  \<open>OTHER_CODE\<close>.
\<close>

datatype status_code =
  SUCCESS | SERVER_ERROR | UPSTREAM_TIMEOUT | UPSTREAM_NOT_FOUND | RESOURCE_NOT_FOUND
  | OTHER_CODE int

record status =
  code :: status_code
  message :: "string option"

text \<open>A value that is \<open>null\<close>, \<open>undefined\<close> or a string (the tunnel UUID).\<close>

datatype jsstr = JNull | JUndefined | JString string

text \<open>
  Everything a tunnel does to its surroundings, in the order it happens: the calls of
  the four callback slots, and the calls into the browser.
\<close>

datatype effect =
    OnStateChange tunnel_state
  | OnError status
  | OnInstruction string "string list"
  | OnUuid jsstr
  | SocketSend string
  | SocketClose
  | DispatchEvent string
  | Alert string
  | ClearOnBeforeUnload
  | Reload
  | XhrPost string
  | XhrGet nat
  | XhrAbort nat

text \<open>
  The fields of \<open>Guacamole.Tunnel\<close>.  A callback slot is \<open>True\<close> when a handler is
  assigned; calling it appends to \<open>trace\<close>.  A handler is taken not to call back into
  the tunnel while it runs.
\<close>

record tunnel =
  state :: tunnel_state
  uuid :: jsstr
  onuuid :: bool
  onerror :: bool
  onstatechange :: bool
  oninstruction :: bool
  trace :: "effect list"

definition emit :: "effect \<Rightarrow> 'a tunnel_scheme \<Rightarrow> 'a tunnel_scheme" where
  "emit e t = t\<lparr>trace := trace t @ [e]\<rparr>"

definition setState :: "tunnel_state \<Rightarrow> 'a tunnel_scheme \<Rightarrow> 'a tunnel_scheme" where
  "setState s t =
     (if s \<noteq> state t
      then (let t1 = t\<lparr>state := s\<rparr>
            in if onstatechange t1 then emit (OnStateChange s) t1 else t1)
      else t)"

definition setUUID :: "jsstr \<Rightarrow> 'a tunnel_scheme \<Rightarrow> 'a tunnel_scheme" where
  "setUUID u t =
     (let t1 = t\<lparr>uuid := u\<rparr>
      in if onuuid t1 then emit (OnUuid u) t1 else t1)"

definition isConnected :: "'a tunnel_scheme \<Rightarrow> bool" where
  "isConnected t = (state t = OPEN \<or> state t = UNSTABLE)"

text \<open>
  The timers of the HTTP and the WebSocket tunnel: a flag is \<open>True\<close> while the timeout
  or interval is pending.  \<open>reset_timeout\<close> has the same text in both tunnels.
\<close>

record timed = tunnel +
  receive_timeout :: bool
  unstableTimeout :: bool
  pingInterval :: bool

definition reset_timeout :: "'a timed_scheme \<Rightarrow> 'a timed_scheme" where
  "reset_timeout t =
     (let t1 = t\<lparr>receive_timeout := False, unstableTimeout := False\<rparr>;
          t2 = (if state t1 = UNSTABLE then setState OPEN t1 else t1)
      in t2\<lparr>receive_timeout := True, unstableTimeout := True\<rparr>)"

section \<open>The WebSocket tunnel\<close>

datatype js_error = TypeError

text \<open>
  The outcome of running a piece of code: it returns, it throws, or (for the message
  loop only) the fuel of the model is used up before the loop ends.  The state reached
  is kept in every case.
\<close>

datatype 'a run = Done 'a | Threw js_error 'a | OutOfFuel 'a

fun run_state :: "'a run \<Rightarrow> 'a" where
  "run_state (Done x) = x"
| "run_state (Threw e x) = x"
| "run_state (OutOfFuel x) = x"

text \<open>\<open>socket\<close> is \<open>False\<close> while the variable is \<open>null\<close> (before the first \<open>connect\<close>).\<close>

record ws = timed +
  socket :: bool

text \<open>
  \<open>close_tunnel\<close> of the WebSocket tunnel.  Its last statement is \<open>socket.close()\<close>,
  which throws a \<open>TypeError\<close> while \<open>socket\<close> is \<open>null\<close>.
\<close>

definition ws_close_tunnel :: "status \<Rightarrow> ws \<Rightarrow> ws run" where
  "ws_close_tunnel st t =
     (let t1 = t\<lparr>receive_timeout := False, unstableTimeout := False, pingInterval := False\<rparr>
      in if state t1 = CLOSED then Done t1
         else
           (let t2 = (if code st \<noteq> SUCCESS \<and> onerror t1 then emit (OnError st) t1 else t1);
                t3 = setState CLOSED t2
            in if socket t3 then Done (emit SocketClose t3) else Threw TypeError t3))"

definition ws_disconnect :: "ws \<Rightarrow> ws run" where
  "ws_disconnect t = ws_close_tunnel \<lparr>code = SUCCESS, message = Some ''Manually closed.''\<rparr> t"


text \<open>
  The body of \<open>if (terminator === ";")\<close> in \<open>socket.onmessage\<close>; \<open>els\<close> is the element
  array with the opcode still at its head.
\<close>

definition ws_instruction :: "string list \<Rightarrow> ws \<Rightarrow> ws run" where
  "ws_instruction els t =
     (let opcode = hd els;
          args = tl els;
          t1 = (if uuid t = JNull
                then setState OPEN
                       (if opcode = []
                        then setUUID (case args of [] \<Rightarrow> JUndefined | a # _ \<Rightarrow> JString a) t
                        else t)
                else t);
          t2 = (if opcode = ''getCredentials''
                then emit (DispatchEvent ''getAuthCredentials'') t1 else t1);
          r3 = (if opcode = ''reauth''
                then (case ws_close_tunnel
                             \<lparr>code = UPSTREAM_TIMEOUT, message = Some ''Server timeout.''\<rparr> t2 of
                        Done t' \<Rightarrow>
                          Done (emit Reload (emit ClearOnBeforeUnload
                                  (emit (Alert ''Session Timed out. Please login again.'') t')))
                      | other \<Rightarrow> other)
                else Done t2)
      in case r3 of
           Done t3 \<Rightarrow>
             Done (if opcode \<noteq> [] \<and> oninstruction t3
                   then emit (OnInstruction opcode args) t3 else t3)
         | other \<Rightarrow> other)"

text \<open>One pass through the body of the \<open>do ... while\<close> loop of \<open>socket.onmessage\<close>.\<close>

definition ws_body :: "string \<Rightarrow> reader \<Rightarrow> ws \<Rightarrow> (reader \<times> ws) run" where
  "ws_body msg r t =
     (let lengthEnd = indexOf msg CHR ''.'' (startIndex r);
          step1 =
            (if lengthEnd \<noteq> - 1
             then Done (r\<lparr>startIndex := lengthEnd + 1,
                          elementEnd := js_plus (lengthEnd + 1)
                            (parseInt (substring msg (js_succ (elementEnd r)) (Num lengthEnd)))\<rparr>,
                        t)
             else map_run (Pair r)
                    (ws_close_tunnel
                       \<lparr>code = SERVER_ERROR, message = Some ''Incomplete instruction.''\<rparr> t))
      in case step1 of
           Done (r1, t1) \<Rightarrow>
             (let element = substring msg (Num (startIndex r1)) (elementEnd r1);
                  terminator = substring msg (elementEnd r1) (js_succ (elementEnd r1));
                  els = elements r1 @ [element]
              in if terminator = '';''
                 then map_run (Pair (r1\<lparr>elements := []\<rparr>)) (ws_instruction els t1)
                 else Done (r1\<lparr>elements := els\<rparr>, t1))
         | other \<Rightarrow> other)"

text \<open>
  The loop: the body, then \<open>startIndex = elementEnd + 1\<close> and the test
  \<open>startIndex < message.length\<close>, which is false for \<open>NaN\<close>.  The loop need not end (see
  \<open>ws_onmessage_malformed\<close> below), so the model counts passes.
\<close>

fun ws_loop :: "nat \<Rightarrow> string \<Rightarrow> reader \<Rightarrow> ws \<Rightarrow> ws run" where
  "ws_loop 0 msg r t = OutOfFuel t"
| "ws_loop (Suc n) msg r t =
     (case ws_body msg r t of
        Done (r1, t1) \<Rightarrow>
          (case js_succ (elementEnd r1) of
             Num i \<Rightarrow>
               if i < int (length msg) then ws_loop n msg (r1\<lparr>startIndex := i\<rparr>) t1
               else Done t1
           | _ \<Rightarrow> Done t1)
      | other \<Rightarrow> map_run snd other)"

definition ws_onmessage :: "nat \<Rightarrow> string \<Rightarrow> ws \<Rightarrow> ws run" where
  "ws_onmessage fuel msg t =
     ws_loop fuel msg \<lparr>elementEnd = Undefined, startIndex = 0, elements = []\<rparr> (reset_timeout t)"


definition ws_onopen :: "ws \<Rightarrow> ws" where
  "ws_onopen t = (reset_timeout t)\<lparr>pingInterval := True\<rparr>"

definition ws_onclose :: "status \<Rightarrow> ws \<Rightarrow> ws run" where
  "ws_onclose st t = ws_close_tunnel st t"

definition ws_receiveTimeout :: "ws \<Rightarrow> ws run" where
  "ws_receiveTimeout t =
     (if receive_timeout t
      then ws_close_tunnel \<lparr>code = UPSTREAM_TIMEOUT, message = Some ''Server timeout.''\<rparr>
             (t\<lparr>receive_timeout := False\<rparr>)
      else Done t)"

text \<open>The tunnel as its constructor leaves it, with the four handlers assigned.\<close>

definition ws_new :: ws where
  "ws_new = \<lparr>state = CONNECTING, uuid = JNull, onuuid = True, onerror = True,
     onstatechange = True, oninstruction = True, trace = [], receive_timeout = False,
     unstableTimeout = False, pingInterval = False, socket = False\<rparr>"

text \<open>The instructions handed to \<open>oninstruction\<close>, in order.\<close>

fun delivered :: "effect list \<Rightarrow> instruction list" where
  "delivered [] = []"
| "delivered (OnInstruction opcode args # es) = (opcode, args) # delivered es"
| "delivered (e # es) = delivered es"

section \<open>The static HTTP tunnel (replay of a protocol dump)\<close>

text \<open>
  \<open>xhr\<close> is \<open>True\<close> while a request is in progress (the variable is not \<open>null\<close>);
  \<open>offset\<close> is the variable of \<open>connect\<close> that counts the characters already given to
  the parser.
\<close>

record static = tunnel +
  xhr :: bool
  offset :: nat

text \<open>
  \<open>instructionReceived\<close>, the handler \<open>connect\<close> gives the parser: it forwards every
  instruction to \<open>tunnel.oninstruction\<close> when that is set.
\<close>

definition instructionReceived ::
  "string \<Rightarrow> string list \<Rightarrow> 'a tunnel_scheme \<Rightarrow> 'a tunnel_scheme" where
  "instructionReceived opcode args t =
     (if oninstruction t then emit (OnInstruction opcode args) t else t)"

definition static_disconnect :: "static \<Rightarrow> static" where
  "static_disconnect t =
     (let t1 = (if xhr t then emit (XhrAbort 0) (t\<lparr>xhr := False\<rparr>) else t)
      in setState CLOSED t1)"



text \<open>\<open>httpError\<close>; \<open>st\<close> is the status made from the HTTP status of the request.\<close>

definition static_httpError :: "status \<Rightarrow> static \<Rightarrow> static" where
  "static_httpError st t = static_disconnect (if onerror t then emit (OnError st) t else t)"

definition static_sendMessage :: "string list \<Rightarrow> static \<Rightarrow> static" where
  "static_sendMessage args t = t"

section \<open>The HTTP tunnel\<close>

text \<open>
  A read request as the browser presents it to the script: its ready state, HTTP
  status and the response text received so far, and the handler assigned to
  \<open>onreadystatechange\<close>.  \<open>errorStatus\<close> is the \<open>Guacamole.Status\<close> that
  \<open>handleHTTPTunnelError\<close> builds from the response (its headers, or its HTTP status
  through \<open>Guacamole.Status.Code.fromHTTPCode\<close>, which is not among the sources).
\<close>

datatype handler = NoHandler | PollingWrapper | ParseResponse

record xhr_read =
  readyState :: nat
  httpStatus :: nat
  responseText :: string
  errorStatus :: status
  onreadystatechange :: handler

text \<open>
  The variables of one call of \<open>handleResponse\<close>.  \<open>interval\<close> tells whether the
  variable holds a timer id, \<open>polling\<close> whether that timer is still running
  (\<open>clearInterval\<close> stops the timer and leaves the variable as it is).
\<close>

record response_vars =
  interval :: bool
  polling :: bool
  nextRequest :: "nat option"
  dataUpdateEvents :: nat
  rd :: reader

text \<open>
  A record of the read loop that is not a variable of the source: the response each
  instruction handed to \<open>oninstruction\<close> was decoded from, and the responses whose
  zero-length element has been processed.
\<close>

datatype read_event = Delivered nat instruction | EndMarker nat

text \<open>
  The variables of \<open>Guacamole.HTTPTunnel\<close>.  Read requests are numbered by
  \<open>request_id\<close>; \<open>requests\<close> and \<open>responses\<close> hold the request and the variables of its
  \<open>handleResponse\<close> call under that number.
\<close>

record http = timed +
  pollingMode :: bool
  sendingMessages :: bool
  outputMessageBuffer :: string
  tunnelSessionToken :: jsstr
  request_id :: nat
  requests :: "nat \<Rightarrow> xhr_read"
  responses :: "nat \<Rightarrow> response_vars"
  readlog :: "read_event list"

definition http_close_tunnel :: "status \<Rightarrow> http \<Rightarrow> http" where
  "http_close_tunnel st t =
     (let t1 = t\<lparr>receive_timeout := False, unstableTimeout := False, pingInterval := False\<rparr>
      in if state t1 = CLOSED then t1
         else
           (let t2 = (if code st \<noteq> SUCCESS \<and> onerror t1
                      then (if state t1 = CONNECTING \<or> code st \<noteq> RESOURCE_NOT_FOUND
                            then emit (OnError st) t1 else t1)
                      else t1);
                t3 = t2\<lparr>sendingMessages := False\<rparr>
            in setState CLOSED t3))"

definition http_disconnect :: "http \<Rightarrow> http" where
  "http_disconnect t = http_close_tunnel \<lparr>code = SUCCESS, message = Some ''Manually closed.''\<rparr> t"

text \<open>\<open>handleHTTPTunnelError\<close>: every branch closes the tunnel with the status it builds.\<close>

definition handleHTTPTunnelError :: "status \<Rightarrow> http \<Rightarrow> http" where
  "handleHTTPTunnelError st t = http_close_tunnel st t"

definition sendPendingMessages :: "http \<Rightarrow> http" where
  "sendPendingMessages t =
     (if \<not> isConnected t then t
      else if length (outputMessageBuffer t) > 0
      then (emit (XhrPost (outputMessageBuffer t)) (t\<lparr>sendingMessages := True\<rparr>))
             \<lparr>outputMessageBuffer := []\<rparr>
      else t\<lparr>sendingMessages := False\<rparr>)"

definition http_sendMessage :: "string list \<Rightarrow> http \<Rightarrow> http" where
  "http_sendMessage args t =
     (if \<not> isConnected t then t
      else if length args = 0 then t
      else (let t1 = t\<lparr>outputMessageBuffer := outputMessageBuffer t @ encodeMessage args\<rparr>
            in if \<not> sendingMessages t1 then sendPendingMessages t1 else t1))"

text \<open>The handler of a write request once the request is complete (\<open>readyState === 4\<close>).\<close>

definition http_writeDone :: "nat \<Rightarrow> status \<Rightarrow> http \<Rightarrow> http" where
  "http_writeDone httpSt st t =
     (let t1 = reset_timeout t
      in if httpSt \<noteq> 200 then handleHTTPTunnelError st t1 else sendPendingMessages t1)"

text \<open>\<open>makeRequest\<close>: a new request, opened and sent, under the next number.\<close>

definition makeRequest :: "http \<Rightarrow> nat \<times> http" where
  "makeRequest t =
     (request_id t,
      (emit (XhrGet (request_id t)) t)
        \<lparr>requests := (requests t)(request_id t :=
             \<lparr>readyState = 1, httpStatus = 0, responseText = [],
              errorStatus = \<lparr>code = SUCCESS, message = None\<rparr>,
              onreadystatechange = NoHandler\<rparr>),
         request_id := Suc (request_id t)\<rparr>)"

definition set_vars :: "nat \<Rightarrow> response_vars \<Rightarrow> http \<Rightarrow> http" where
  "set_vars k v t = t\<lparr>responses := (responses t)(k := v)\<rparr>"

definition set_handler :: "nat \<Rightarrow> handler \<Rightarrow> http \<Rightarrow> http" where
  "set_handler k h t =
     t\<lparr>requests := (requests t)(k := (requests t k)\<lparr>onreadystatechange := h\<rparr>)\<rparr>"

text \<open>
  The part of \<open>handleResponse\<close> before its last statement: fresh variables, and the
  handler of the request (the polling wrapper while polling is enabled).
\<close>

definition startResponse :: "nat \<Rightarrow> http \<Rightarrow> http" where
  "startResponse k t =
     set_handler k (if pollingMode t then PollingWrapper else ParseResponse)
       (set_vars k \<lparr>interval = False, polling = False, nextRequest = None,
                    dataUpdateEvents = 0, rd = initialReader\<rparr> t)"


text \<open>
  The blocks of \<open>parseResponse\<close> of the \<open>handleResponse\<close> call for request \<open>k\<close>.
  First the statement that starts the next request as soon as this one has the
  status 200.
\<close>

definition ensureNext :: "nat \<Rightarrow> nat \<Rightarrow> http \<Rightarrow> http" where
  "ensureNext k httpSt t =
     (if nextRequest (responses t k) = None \<and> httpSt = 200
      then (let t' = snd (makeRequest t)
            in set_vars k ((responses t' k)\<lparr>nextRequest := Some (fst (makeRequest t))\<rparr>) t')
      else t)"

text \<open>The block that starts and stops the 30 ms interval while polling is enabled.\<close>

definition pollBlock :: "nat \<Rightarrow> nat \<Rightarrow> http \<Rightarrow> http" where
  "pollBlock k rs t =
     (if pollingMode t
      then (if rs = 3 \<and> \<not> interval (responses t k)
            then set_vars k ((responses t k)\<lparr>interval := True, polling := True\<rparr>) t
            else if rs = 4 \<and> interval (responses t k)
            then set_vars k ((responses t k)\<lparr>polling := False\<rparr>) t
            else t)
      else t)"

text \<open>
  The zero-length branch of the parse loop, up to the call
  \<open>handleResponse(nextRequest)\<close>: stop the interval, take the handler off the request
  and abort it.
\<close>

definition endResponse :: "nat \<Rightarrow> http \<Rightarrow> http" where
  "endResponse k t =
     (let t5 = t\<lparr>readlog := readlog t @ [EndMarker k]\<rparr>;
          t6 = (if interval (responses t5 k)
                then set_vars k ((responses t5 k)\<lparr>polling := False\<rparr>) t5
                else t5)
      in emit (XhrAbort k) (set_handler k NoHandler t6))"










text \<open>The timers: each does something only while it is pending.\<close>

definition http_receiveTimeout :: "http \<Rightarrow> http" where
  "http_receiveTimeout t =
     (if receive_timeout t
      then http_close_tunnel \<lparr>code = UPSTREAM_TIMEOUT, message = Some ''Server timeout.''\<rparr>
             (t\<lparr>receive_timeout := False\<rparr>)
      else t)"

definition unstableFired :: "'a timed_scheme \<Rightarrow> 'a timed_scheme" where
  "unstableFired t =
     (if unstableTimeout t then setState UNSTABLE (t\<lparr>unstableTimeout := False\<rparr>) else t)"

definition http_ping :: "http \<Rightarrow> http" where
  "http_ping t = (if pingInterval t then http_sendMessage [''nop''] t else t)"







section \<open>The chained tunnel\<close>

text \<open>
  What a callback slot of a candidate tunnel can hold: one of the functions
  \<open>attach(tunnel)\<close> wraps around the chain's own slots (\<open>Interceptor\<close>), or a function
  assigned to a slot of the chain by its user, known by a name (\<open>Public\<close>).  \<open>None\<close>
  is \<open>null\<close>.  The wrappers are closures over the tunnel they are assigned to.
\<close>

datatype callback = Interceptor | Public nat

text \<open>
  The candidates are tunnels of any kind; the chain reads their \<open>uuid\<close> and assigns
  their slots.  What a candidate does on \<open>connect\<close> is not the chain's: every call of a
  slot by a candidate is an event of the model.
\<close>

record candidate =
  c_uuid :: jsstr
  c_onstatechange :: "callback option"
  c_oninstruction :: "callback option"
  c_onerror :: "callback option"
  c_onuuid :: "callback option"

text \<open>
  What the chain does to its surroundings: it calls a function of its user (by name),
  or \<open>connect\<close> of a candidate with the stored data.  \<open>CallNoTunnels\<close> is the call
  \<open>onerror(SERVER_ERROR, "No tunnels to try.")\<close>, which passes a code, not a status.
\<close>

datatype chain_effect =
    CallStateChange nat tunnel_state
  | CallInstruction nat string "string list"
  | CallError nat status
  | CallNoTunnels nat
  | CallUuid nat jsstr
  | CandidateConnect nat "string option"

text \<open>
  The variables of \<open>Guacamole.ChainedTunnel\<close>: the stored data (\<open>None\<close> while
  undefined), the queue of candidates not tried yet, the committed tunnel, the tunnel
  whose \<open>disconnect\<close> and \<open>sendMessage\<close> the chain currently has, the candidates by
  number, and the chain's own \<open>uuid\<close> and slots.
\<close>

record chain =
  connect_data :: "string option"
  tunnels :: "nat list"
  committedTunnel :: "nat option"
  attached :: "nat option"
  candidates :: "nat \<Rightarrow> candidate"
  ch_uuid :: jsstr
  ch_onstatechange :: "nat option"
  ch_oninstruction :: "nat option"
  ch_onerror :: "nat option"
  ch_onuuid :: "nat option"
  ch_trace :: "chain_effect list"

definition ch_emit :: "chain_effect \<Rightarrow> chain \<Rightarrow> chain" where
  "ch_emit e c = c\<lparr>ch_trace := ch_trace c @ [e]\<rparr>"

definition set_candidate :: "nat \<Rightarrow> candidate \<Rightarrow> chain \<Rightarrow> chain" where
  "set_candidate i x c = c\<lparr>candidates := (candidates c)(i := x)\<rparr>"

text \<open>\<open>attach(tunnel)\<close>: take over its functions, wrap its three slots, connect it.\<close>

definition attach :: "nat \<Rightarrow> chain \<Rightarrow> chain" where
  "attach i c =
     (let c1 = c\<lparr>attached := Some i\<rparr>;
          c2 = set_candidate i
                 ((candidates c1 i)\<lparr>c_onstatechange := Some Interceptor,
                                     c_oninstruction := Some Interceptor,
                                     c_onerror := Some Interceptor\<rparr>) c1
      in ch_emit (CandidateConnect i (connect_data c2)) c2)"

text \<open>
  \<open>failTunnel(status)\<close> of the closure for tunnel \<open>i\<close>; \<open>None\<close> as status is the call
  without an argument.  The first component is the value returned (\<open>None\<close> for \<open>null\<close>
  and \<open>undefined\<close>).
\<close>

definition failTunnel :: "nat \<Rightarrow> status option \<Rightarrow> chain \<Rightarrow> nat option \<times> chain" where
  "failTunnel i st c =
     (if (case st of Some s \<Rightarrow> code s = UPSTREAM_TIMEOUT | None \<Rightarrow> False)
      then (None, c\<lparr>tunnels := []\<rparr>)
      else (case tunnels c of
              [] \<Rightarrow> (None, c)
            | n # rest \<Rightarrow>
                (Some n,
                 attach n
                   (set_candidate i
                      ((candidates c i)\<lparr>c_onerror := None, c_oninstruction := None,
                                         c_onstatechange := None\<rparr>)
                      (c\<lparr>tunnels := rest\<rparr>)))))"

text \<open>\<open>setUUID\<close> of the chain itself.\<close>

definition ch_setUUID :: "jsstr \<Rightarrow> chain \<Rightarrow> chain" where
  "ch_setUUID u c =
     (let c1 = c\<lparr>ch_uuid := u\<rparr>
      in case ch_onuuid c1 of Some h \<Rightarrow> ch_emit (CallUuid h u) c1 | None \<Rightarrow> c1)"

text \<open>\<open>commit_tunnel()\<close> of the closure for tunnel \<open>i\<close>; \<open>if (tunnel.uuid)\<close> holds for a
  non-empty string.\<close>

definition commit_tunnel :: "nat \<Rightarrow> chain \<Rightarrow> chain" where
  "commit_tunnel i c =
     (let c1 = set_candidate i
                 ((candidates c i)\<lparr>c_onstatechange := map_option Public (ch_onstatechange c),
                                    c_oninstruction := map_option Public (ch_oninstruction c),
                                    c_onerror := map_option Public (ch_onerror c),
                                    c_onuuid := map_option Public (ch_onuuid c)\<rparr>) c;
          c2 = (case c_uuid (candidates c1 i) of
                  JString u \<Rightarrow> if u \<noteq> [] then ch_setUUID (JString u) c1 else c1
                | _ \<Rightarrow> c1)
      in c2\<lparr>committedTunnel := Some i\<rparr>)"

text \<open>The three wrappers \<open>attach\<close> assigns to tunnel \<open>i\<close>.\<close>

definition wrap_onstatechange :: "nat \<Rightarrow> tunnel_state \<Rightarrow> chain \<Rightarrow> chain" where
  "wrap_onstatechange i s c =
     (case s of
        OPEN \<Rightarrow>
          (let c1 = commit_tunnel i c
           in case ch_onstatechange c1 of
                Some h \<Rightarrow> ch_emit (CallStateChange h s) c1 | None \<Rightarrow> c1)
      | CLOSED \<Rightarrow>
          (let r = failTunnel i None c
           in if fst r = None
              then (case ch_onstatechange (snd r) of
                      Some h \<Rightarrow> ch_emit (CallStateChange h s) (snd r) | None \<Rightarrow> snd r)
              else snd r)
      | _ \<Rightarrow> c)"

definition wrap_oninstruction :: "nat \<Rightarrow> string \<Rightarrow> string list \<Rightarrow> chain \<Rightarrow> chain" where
  "wrap_oninstruction i opcode args c =
     (let c1 = commit_tunnel i c
      in case ch_oninstruction c1 of
           Some h \<Rightarrow> ch_emit (CallInstruction h opcode args) c1 | None \<Rightarrow> c1)"

definition wrap_onerror :: "nat \<Rightarrow> status \<Rightarrow> chain \<Rightarrow> chain" where
  "wrap_onerror i st c =
     (let r = failTunnel i (Some st) c
      in if fst r = None
         then (case ch_onerror (snd r) of
                 Some h \<Rightarrow> ch_emit (CallError h st) (snd r) | None \<Rightarrow> snd r)
         else snd r)"

text \<open>Candidate \<open>i\<close> calls one of its slots.\<close>

definition fire_statechange :: "nat \<Rightarrow> tunnel_state \<Rightarrow> chain \<Rightarrow> chain" where
  "fire_statechange i s c =
     (case c_onstatechange (candidates c i) of
        None \<Rightarrow> c
      | Some Interceptor \<Rightarrow> wrap_onstatechange i s c
      | Some (Public h) \<Rightarrow> ch_emit (CallStateChange h s) c)"

definition fire_instruction :: "nat \<Rightarrow> string \<Rightarrow> string list \<Rightarrow> chain \<Rightarrow> chain" where
  "fire_instruction i opcode args c =
     (case c_oninstruction (candidates c i) of
        None \<Rightarrow> c
      | Some Interceptor \<Rightarrow> wrap_oninstruction i opcode args c
      | Some (Public h) \<Rightarrow> ch_emit (CallInstruction h opcode args) c)"

definition fire_error :: "nat \<Rightarrow> status \<Rightarrow> chain \<Rightarrow> chain" where
  "fire_error i st c =
     (case c_onerror (candidates c i) of
        None \<Rightarrow> c
      | Some Interceptor \<Rightarrow> wrap_onerror i st c
      | Some (Public h) \<Rightarrow> ch_emit (CallError h st) c)"

text \<open>\<open>setUUID\<close> of candidate \<open>i\<close>; \<open>attach\<close> never wraps \<open>onuuid\<close>.\<close>

definition fire_uuid :: "nat \<Rightarrow> jsstr \<Rightarrow> chain \<Rightarrow> chain" where
  "fire_uuid i u c =
     (let c1 = set_candidate i ((candidates c i)\<lparr>c_uuid := u\<rparr>) c
      in case c_onuuid (candidates c1 i) of
           Some (Public h) \<Rightarrow> ch_emit (CallUuid h u) c1
         | _ \<Rightarrow> c1)"

text \<open>\<open>connect(data)\<close> of the chain.\<close>

definition chain_connect :: "string option \<Rightarrow> chain \<Rightarrow> chain" where
  "chain_connect data c =
     (let c1 = c\<lparr>connect_data := data\<rparr>
      in case committedTunnel c1 of
           Some i \<Rightarrow> attach i c1
         | None \<Rightarrow>
             (case tunnels c1 of
                n # rest \<Rightarrow> attach n (c1\<lparr>tunnels := rest\<rparr>)
              | [] \<Rightarrow>
                  (case ch_onerror c1 of
                     Some h \<Rightarrow> ch_emit (CallNoTunnels h) c1 | None \<Rightarrow> c1)))"

text \<open>The events of a chain, and a run of them.\<close>

datatype chain_event =
    Connect "string option"
  | StateChanged nat tunnel_state
  | Instructed nat string "string list"
  | Failed nat status
  | UuidSet nat jsstr

fun chain_step :: "chain \<Rightarrow> chain_event \<Rightarrow> chain" where
  "chain_step c (Connect data) = chain_connect data c"
| "chain_step c (StateChanged i s) = fire_statechange i s c"
| "chain_step c (Instructed i opcode args) = fire_instruction i opcode args c"
| "chain_step c (Failed i st) = fire_error i st c"
| "chain_step c (UuidSet i u) = fire_uuid i u c"

definition chain_run :: "chain \<Rightarrow> chain_event list \<Rightarrow> chain" where
  "chain_run c es = foldl chain_step c es"

text \<open>
  A chain of \<open>n\<close> candidates as the constructor leaves it, with a function assigned to
  each of its four slots (named 1 to 4).
\<close>

definition chain_new :: "nat \<Rightarrow> chain" where
  "chain_new n = \<lparr>connect_data = None, tunnels = [0..<n], committedTunnel = None,
     attached = None,
     candidates = (\<lambda>i. \<lparr>c_uuid = JNull, c_onstatechange = None, c_oninstruction = None,
                         c_onerror = None, c_onuuid = None\<rparr>),
     ch_uuid = JNull, ch_onstatechange = Some 1, ch_oninstruction = Some 2,
     ch_onerror = Some 3, ch_onuuid = Some 4, ch_trace = []\<rparr>"

section \<open>Auxiliary definitions for the proofs\<close>


text \<open>An open WebSocket tunnel with a UUID and all four handlers assigned.\<close>

definition ws_example :: ws where
  "ws_example = \<lparr>state = OPEN, uuid = JString ''u'', onuuid = True, onerror = True,
     onstatechange = True, oninstruction = True, trace = [], receive_timeout = True,
     unstableTimeout = True, pingInterval = True, socket = True\<rparr>"

text \<open>A static tunnel during a transfer, with all four handlers assigned.\<close>

definition static_example :: static where
  "static_example = \<lparr>state = OPEN, uuid = JNull, onuuid = True, onerror = True,
     onstatechange = True, oninstruction = True, trace = [], xhr = True, offset = 0\<rparr>"

text \<open>No instruction with the empty opcode among the effects.\<close>

definition internal_free :: "effect list \<Rightarrow> bool" where
  "internal_free es = ([] \<notin> set (map fst (delivered es)))"

text \<open>The trace of the second tunnel extends that of the first by such effects.\<close>

definition grows :: "'a tunnel_scheme \<Rightarrow> 'b tunnel_scheme \<Rightarrow> bool" where
  "grows t t' = (\<exists>new. trace t' = trace t @ new \<and> internal_free new)"

text \<open>The calls of \<open>connect\<close> on candidates, in order.\<close>

fun connects :: "chain_effect list \<Rightarrow> (nat \<times> string option) list" where
  "connects [] = []"
| "connects (CandidateConnect i d # es) = (i, d) # connects es"
| "connects (e # es) = connects es"

text \<open>The event is a \<open>connect\<close> of the chain.\<close>

fun is_Connect :: "chain_event \<Rightarrow> bool" where
  "is_Connect (Connect d) = True"
| "is_Connect e = False"

definition timeout_status :: status where
  "timeout_status = \<lparr>code = UPSTREAM_TIMEOUT, message = Some ''Server timeout.''\<rparr>"

definition unreachable_status :: status where
  "unreachable_status = \<lparr>code = UPSTREAM_NOT_FOUND, message = None\<rparr>"

text \<open>A chain of three candidates after \<open>connect("d")\<close>: the first one is attached.\<close>

definition chain_example :: chain where
  "chain_example = chain_run (chain_new 3) [Connect (Some ''d'')]"





text \<open>The part of the tunnel the read loop works on.\<close>

definition reads :: "http \<Rightarrow> read_event list \<times> (nat \<Rightarrow> xhr_read) \<times> (nat \<Rightarrow> response_vars) \<times> nat" where
  "reads t = (readlog t, requests t, responses t, request_id t)"

text \<open>The instructions of the record, and the record agreeing with the calls made.\<close>

fun logged :: "read_event list \<Rightarrow> instruction list" where
  "logged [] = []"
| "logged (Delivered k i # es) = i # logged es"
| "logged (EndMarker k # es) = logged es"


text \<open>The two sides of \<open>synced\<close>.\<close>

definition sides :: "http \<Rightarrow> instruction list \<times> instruction list" where
  "sides t = (delivered (trace t), logged (readlog t))"


section \<open>Lemmas: traces of the WebSocket tunnel\<close>

lemma delivered_append: "delivered (xs @ ys) = delivered xs @ delivered ys"
  by (induction xs rule: delivered.induct) simp_all

lemma grows_refl: "grows t t"
  by (simp add: grows_def internal_free_def)

lemma grows_same: "trace t' = trace t \<Longrightarrow> grows t t'"
  by (simp add: grows_def internal_free_def)

lemma grows_trans: "grows t t1 \<Longrightarrow> grows t1 t2 \<Longrightarrow> grows t t2"
  by (auto simp: grows_def internal_free_def delivered_append)

lemma grows_emit:
  "delivered [e] = [] \<or> (\<exists>opcode args. e = OnInstruction opcode args \<and> opcode \<noteq> [])
   \<Longrightarrow> grows t (emit e t)"
  by (auto simp: grows_def internal_free_def emit_def)

lemma grows_setState: "grows t (setState s t)"
  by (auto simp: setState_def Let_def grows_def internal_free_def emit_def)

lemma grows_setUUID: "grows t (setUUID u t)"
  by (auto simp: setUUID_def Let_def grows_def internal_free_def emit_def)

lemma grows_reset_timeout: "grows t (reset_timeout t)"
  by (auto simp: reset_timeout_def setState_def Let_def grows_def internal_free_def emit_def)

lemma grows_ws_close_tunnel: "grows t (run_state (ws_close_tunnel st t))"
  by (auto simp: ws_close_tunnel_def setState_def Let_def grows_def internal_free_def emit_def)

lemma grows_ws_instruction: "grows t (run_state (ws_instruction els t))"
  by (auto simp: ws_instruction_def ws_close_tunnel_def setState_def setUUID_def emit_def Let_def
        grows_def internal_free_def)

lemma run_state_map_run: "run_state (map_run f X) = f (run_state X)"
  by (cases X) simp_all

lemma grows_ws_body: "grows t (snd (run_state (ws_body msg r t)))"
proof -
  let ?lengthEnd = "indexOf msg CHR ''.'' (startIndex r)"
  let ?step1 = "if ?lengthEnd \<noteq> - 1
             then Done (r\<lparr>startIndex := ?lengthEnd + 1,
                          elementEnd := js_plus (?lengthEnd + 1)
                            (parseInt (substring msg (js_succ (elementEnd r)) (Num ?lengthEnd)))\<rparr>,
                        t)
             else map_run (Pair r)
                    (ws_close_tunnel
                       \<lparr>code = SERVER_ERROR, message = Some ''Incomplete instruction.''\<rparr> t)"
  have 1: "grows t (snd (run_state ?step1))"
    by (simp add: run_state_map_run grows_refl grows_ws_close_tunnel)
  show ?thesis
  proof (cases ?step1)
    case (Done x)
    obtain r1 t1 where x: "x = (r1, t1)" by (cases x)
    from 1 Done x have g: "grows t t1" by simp
    have "grows t1 (snd (run_state
             (let element = substring msg (Num (startIndex r1)) (elementEnd r1);
                  terminator = substring msg (elementEnd r1) (js_succ (elementEnd r1));
                  els = elements r1 @ [element]
              in if terminator = '';''
                 then map_run (Pair (r1\<lparr>elements := []\<rparr>)) (ws_instruction els t1)
                 else Done (r1\<lparr>elements := els\<rparr>, t1))))"
      by (simp add: Let_def run_state_map_run grows_refl grows_ws_instruction)
    with g Done x show ?thesis
      unfolding ws_body_def by (simp only: Let_def run.case prod.case) (rule grows_trans)
  next
    case (Threw e x)
    with 1 show ?thesis unfolding ws_body_def by (simp only: Let_def run.case run_state.simps)
  next
    case (OutOfFuel x)
    with 1 show ?thesis unfolding ws_body_def by (simp only: Let_def run.case run_state.simps)
  qed
qed

lemma grows_ws_loop: "grows t (run_state (ws_loop n msg r t))"
proof (induction n arbitrary: r t)
  case 0
  show ?case by (simp add: grows_refl)
next
  case (Suc n)
  have b: "grows t (snd (run_state (ws_body msg r t)))" by (rule grows_ws_body)
  show ?case
  proof (cases "ws_body msg r t")
    case (Done x)
    obtain r1 t1 where x: "x = (r1, t1)" by (cases x)
    from b Done x have g: "grows t t1" by simp
    show ?thesis
      using Done x g grows_trans [OF g Suc.IH [of t1]]
      by (auto split: jsnum.splits)
  next
    case (Threw e x)
    with b show ?thesis by simp
  next
    case (OutOfFuel x)
    with b show ?thesis by simp
  qed
qed

section \<open>Lemmas: the codec\<close>























lemma map_run_snd_Pair: "map_run snd (map_run (Pair r) X) = X"
  by (cases X) simp_all







section \<open>Lemmas: the WebSocket loop on a malformed frame, the write path, the chain\<close>

lemma ws_close_tunnel_socket:
  "socket t \<Longrightarrow> \<exists>t'. ws_close_tunnel st t = Done t' \<and> socket t'"
  by (auto simp: ws_close_tunnel_def setState_def emit_def Let_def)

lemma ws_instruction_socket:
  "socket t \<Longrightarrow> \<exists>t'. ws_instruction els t = Done t' \<and> socket t'"
  by (auto simp: ws_instruction_def ws_close_tunnel_def setState_def setUUID_def emit_def Let_def)

lemma malformed_strings:
  "indexOf ''1.a;xyz'' CHR ''.'' 4 = - 1"
  "substring ''1.a;xyz'' (Num 4) (Num 3) = '';''"
  "substring ''1.a;xyz'' (Num 3) (Num 4) = '';''"
  "indexOf ''1.a;xyz'' CHR ''.'' 0 = 1"
  "substring ''1.a;xyz'' NaN (Num 1) = ''1''"
  "parseInt ''1'' = Num 1"
  "substring ''1.a;xyz'' (Num 2) (Num 3) = ''a''"
  by code_simp+

lemma ws_stuck:
  "socket t \<Longrightarrow> \<exists>t'. ws_loop n ''1.a;xyz'' \<lparr>elementEnd = Num 3, startIndex = 4, elements = []\<rparr> t
                       = OutOfFuel t'"
proof (induction n arbitrary: t)
  case 0
  show ?case by simp
next
  case (Suc n)
  from ws_close_tunnel_socket [OF Suc.prems] obtain t1 where
    c: "ws_close_tunnel \<lparr>code = SERVER_ERROR, message = Some ''Incomplete instruction.''\<rparr> t = Done t1"
    and s1: "socket t1" by blast
  from ws_instruction_socket [OF s1] obtain t2 where
    i: "ws_instruction ['';''] t1 = Done t2" and s2: "socket t2" by blast
  have b: "ws_body ''1.a;xyz'' \<lparr>elementEnd = Num 3, startIndex = 4, elements = []\<rparr> t
           = Done (\<lparr>elementEnd = Num 3, startIndex = 4, elements = []\<rparr>, t2)"
    by (simp add: ws_body_def malformed_strings c i)
  from Suc.IH [OF s2] b show ?case by simp
qed


lemma connects_append: "connects (xs @ ys) = connects xs @ connects ys"
  by (induction xs rule: connects.induct) simp_all

lemma commit_keeps:
  "tunnels (commit_tunnel i c) = tunnels c
   \<and> connects (ch_trace (commit_tunnel i c)) = connects (ch_trace c)"
  by (auto simp: commit_tunnel_def set_candidate_def ch_setUUID_def ch_emit_def Let_def
        connects_append split: jsstr.splits option.splits)

lemma step_no_queue:
  assumes "tunnels c = []" and "\<not> is_Connect e"
  shows "tunnels (chain_step c e) = [] \<and> connects (ch_trace (chain_step c e)) = connects (ch_trace c)"
proof (cases e)
  case (Connect d)
  with assms show ?thesis by simp
next
  case (StateChanged i s)
  with assms commit_keeps [of i c] show ?thesis
    by (cases s)
       (auto simp: fire_statechange_def wrap_onstatechange_def failTunnel_def ch_emit_def Let_def
          connects_append split: option.splits callback.splits)
next
  case (Instructed i opcode args)
  with assms commit_keeps [of i c] show ?thesis
    by (auto simp: fire_instruction_def wrap_oninstruction_def ch_emit_def Let_def
          connects_append split: option.splits callback.splits)
next
  case (Failed i st)
  with assms show ?thesis
    by (auto simp: fire_error_def wrap_onerror_def failTunnel_def ch_emit_def Let_def
          connects_append split: option.splits callback.splits)
next
  case (UuidSet i u)
  with assms show ?thesis
    by (auto simp: fire_uuid_def set_candidate_def ch_emit_def Let_def
          connects_append split: option.splits callback.splits)
qed

lemma run_no_queue:
  assumes "tunnels c = []" and "\<forall>e\<in>set es. \<not> is_Connect e"
  shows "tunnels (chain_run c es) = [] \<and> connects (ch_trace (chain_run c es)) = connects (ch_trace c)"
  using assms
proof (induction es arbitrary: c)
  case Nil
  then show ?case by (simp add: chain_run_def)
next
  case (Cons e es)
  from Cons.prems step_no_queue [of c e]
  have s: "tunnels (chain_step c e) = []"
          "connects (ch_trace (chain_step c e)) = connects (ch_trace c)" by auto
  from Cons.IH [OF s(1)] Cons.prems s(2) show ?case by (simp add: chain_run_def)
qed

section \<open>Lemmas: the state after the steps of a tunnel\<close>

lemma state_setState [simp]: "state (setState s t) = s"
  by (simp add: setState_def emit_def Let_def)

lemma state_emit [simp]: "state (emit e t) = state t"
  by (simp add: emit_def)







section \<open>Lemmas: the read loop of the HTTP tunnel\<close>


lemma reads_eq:
  "(reads t' = reads t) = (readlog t' = readlog t \<and> requests t' = requests t
      \<and> responses t' = responses t \<and> request_id t' = request_id t)"
  by (simp add: reads_def)

lemma reads_setState [simp]: "reads (setState s t) = reads t"
  by (simp add: reads_def setState_def emit_def Let_def)

lemma reads_emit [simp]: "reads (emit e t) = reads t"
  by (simp add: reads_def emit_def)

lemma reads_reset_timeout [simp]: "reads (reset_timeout t) = reads t"
  by (simp add: reads_def reset_timeout_def setState_def emit_def Let_def)

lemma reads_http_close_tunnel [simp]: "reads (http_close_tunnel st t) = reads t"
  by (simp add: reads_def http_close_tunnel_def setState_def emit_def Let_def)

lemma reads_http_disconnect [simp]: "reads (http_disconnect t) = reads t"
  by (simp add: http_disconnect_def)

lemma reads_handleHTTPTunnelError [simp]: "reads (handleHTTPTunnelError st t) = reads t"
  by (simp add: handleHTTPTunnelError_def)

lemma reads_sendPendingMessages [simp]: "reads (sendPendingMessages t) = reads t"
  by (simp add: reads_def sendPendingMessages_def emit_def)












lemmas fields_frame [simp] =
  reads_setState [unfolded reads_eq] reads_emit [unfolded reads_eq]
  reads_reset_timeout [unfolded reads_eq] reads_http_close_tunnel [unfolded reads_eq]
  reads_http_disconnect [unfolded reads_eq] reads_handleHTTPTunnelError [unfolded reads_eq]

lemma set_vars_fields [simp]:
  "readlog (set_vars k v t) = readlog t"
  "requests (set_vars k v t) = requests t"
  "responses (set_vars k v t) = (responses t)(k := v)"
  "request_id (set_vars k v t) = request_id t"
  "state (set_vars k v t) = state t"
  "pollingMode (set_vars k v t) = pollingMode t"
  "oninstruction (set_vars k v t) = oninstruction t"
  by (simp_all add: set_vars_def)

lemma set_handler_fields [simp]:
  "readlog (set_handler k h t) = readlog t"
  "requests (set_handler k h t) = (requests t)(k := (requests t k)\<lparr>onreadystatechange := h\<rparr>)"
  "responses (set_handler k h t) = responses t"
  "request_id (set_handler k h t) = request_id t"
  "state (set_handler k h t) = state t"
  by (simp_all add: set_handler_def)

lemma makeRequest_fields [simp]:
  "fst (makeRequest t) = request_id t"
  "readlog (snd (makeRequest t)) = readlog t"
  "requests (snd (makeRequest t)) = (requests t)(request_id t :=
             \<lparr>readyState = 1, httpStatus = 0, responseText = [],
              errorStatus = \<lparr>code = SUCCESS, message = None\<rparr>,
              onreadystatechange = NoHandler\<rparr>)"
  "responses (snd (makeRequest t)) = responses t"
  "request_id (snd (makeRequest t)) = Suc (request_id t)"
  "state (snd (makeRequest t)) = state t"
  by (simp_all add: makeRequest_def emit_def)

lemma startResponse_fields [simp]:
  "readlog (startResponse k t) = readlog t"
  "requests (startResponse k t)
     = (requests t)(k := (requests t k)\<lparr>onreadystatechange :=
                            (if pollingMode t then PollingWrapper else ParseResponse)\<rparr>)"
  "responses (startResponse k t)
     = (responses t)(k := \<lparr>interval = False, polling = False, nextRequest = None,
                             dataUpdateEvents = 0, rd = initialReader\<rparr>)"
  "request_id (startResponse k t) = request_id t"
  "state (startResponse k t) = state t"
  by (simp_all add: startResponse_def)




lemma endResponse_fields [simp]:
  "readlog (endResponse k t) = readlog t @ [EndMarker k]"
  "requests (endResponse k t) = (requests t)(k := (requests t k)\<lparr>onreadystatechange := NoHandler\<rparr>)"
  "responses (endResponse k t)
     = (if interval (responses t k)
        then (responses t)(k := (responses t k)\<lparr>polling := False\<rparr>) else responses t)"
  "request_id (endResponse k t) = request_id t"
  by (simp_all add: endResponse_def Let_def)








lemma pollBlock_requests [simp]: "requests (pollBlock k rs t) = requests t"
  by (simp add: pollBlock_def)














lemma logged_append: "logged (xs @ ys) = logged xs @ logged ys"
  by (induction xs rule: logged.induct) simp_all

lemma logged_deliveries: "logged (map (Delivered k) out) = out"
  by (induction out) simp_all
lemma sides_setState [simp]: "sides (setState s t) = sides t"
  by (simp add: sides_def setState_def emit_def Let_def delivered_append)

lemma sides_reset_timeout [simp]: "sides (reset_timeout t) = sides t"
  by (simp add: sides_def reset_timeout_def setState_def emit_def Let_def delivered_append)

lemma sides_http_close_tunnel [simp]: "sides (http_close_tunnel st t) = sides t"
  by (simp add: sides_def http_close_tunnel_def setState_def emit_def Let_def delivered_append)

lemma sides_http_disconnect [simp]: "sides (http_disconnect t) = sides t"
  by (simp add: http_disconnect_def)

lemma sides_handleHTTPTunnelError [simp]: "sides (handleHTTPTunnelError st t) = sides t"
  by (simp add: handleHTTPTunnelError_def)

lemma sides_sendPendingMessages [simp]: "sides (sendPendingMessages t) = sides t"
  by (simp add: sides_def sendPendingMessages_def emit_def delivered_append)

lemma sides_http_sendMessage [simp]: "sides (http_sendMessage args t) = sides t"
proof -
  have "sides (t\<lparr>outputMessageBuffer := outputMessageBuffer t @ encodeMessage args\<rparr>) = sides t"
    by (simp add: sides_def)
  then show ?thesis by (simp add: http_sendMessage_def Let_def)
qed

lemma sides_http_writeDone [simp]: "sides (http_writeDone hs st t) = sides t"
  by (simp add: http_writeDone_def Let_def)

lemma sides_http_ping [simp]: "sides (http_ping t) = sides t"
  by (simp add: http_ping_def)

lemma sides_http_receiveTimeout [simp]: "sides (http_receiveTimeout t) = sides t"
proof -
  have "sides (t\<lparr>receive_timeout := False\<rparr>) = sides t" by (simp add: sides_def)
  then show ?thesis by (simp add: http_receiveTimeout_def)
qed

lemma sides_unstableFired [simp]: "sides (unstableFired t) = sides t"
proof -
  have "sides (t\<lparr>unstableTimeout := False\<rparr>) = sides t" by (simp add: sides_def)
  then show ?thesis by (simp add: unstableFired_def)
qed

lemma sides_set_vars [simp]: "sides (set_vars k v t) = sides t"
  by (simp add: sides_def set_vars_def)

lemma sides_set_handler [simp]: "sides (set_handler k h t) = sides t"
  by (simp add: sides_def set_handler_def)

lemma sides_startResponse [simp]: "sides (startResponse k t) = sides t"
  by (simp add: startResponse_def)

lemma sides_ensureNext [simp]: "sides (ensureNext k hs t) = sides t"
proof -
  have "sides (snd (makeRequest t)) = sides t"
    by (simp add: sides_def makeRequest_def emit_def delivered_append)
  then show ?thesis by (simp add: ensureNext_def Let_def)
qed

lemma sides_pollBlock [simp]: "sides (pollBlock k rs t) = sides t"
  by (simp add: pollBlock_def)

lemma sides_endResponse [simp]: "sides (endResponse k t) = sides t"
proof -
  have "sides (emit (XhrAbort k) t') = sides t'" for t' :: http
    by (simp add: sides_def emit_def delivered_append)
  moreover have "sides (t\<lparr>readlog := readlog t @ [EndMarker k]\<rparr>) = sides t"
    by (simp add: sides_def logged_append)
  ultimately show ?thesis by (simp add: endResponse_def Let_def)
qed









subsection \<open>Commit within one connect cycle, and repeated disconnects\<close>

text \<open>
  While a candidate still carries the interceptors installed by \<open>attach\<close>, its first
  OPEN state change or its first instruction commits it: the candidate's handler slots are
  replaced by the chain's public handlers, the remaining candidates are left untouched, and a
  non-empty UUID of the candidate is adopted. A committed candidate that closes only reports
  the state change. A later \<open>connect\<close> goes back to the committed candidate and
  attaches it again. Disconnecting a tunnel that is already closed adds nothing to the trace.
\<close>

lemma commit_on_open:
  assumes "c_onstatechange (candidates c i) = Some Interceptor"
  shows "committedTunnel (fire_statechange i OPEN c) = Some i"
    and "c_onstatechange (candidates (fire_statechange i OPEN c) i) = map_option Public (ch_onstatechange c)"
    and "c_oninstruction (candidates (fire_statechange i OPEN c) i) = map_option Public (ch_oninstruction c)"
    and "c_onerror (candidates (fire_statechange i OPEN c) i) = map_option Public (ch_onerror c)"
    and "c_onuuid (candidates (fire_statechange i OPEN c) i) = map_option Public (ch_onuuid c)"
    and "tunnels (fire_statechange i OPEN c) = tunnels c"
    and "c_uuid (candidates c i) = JString u \<Longrightarrow> u \<noteq> [] \<Longrightarrow>
           ch_uuid (fire_statechange i OPEN c) = JString u"
  using assms
  by (auto simp: fire_statechange_def wrap_onstatechange_def commit_tunnel_def set_candidate_def
        ch_setUUID_def ch_emit_def Let_def split: jsstr.splits option.splits)

lemma commit_on_instruction:
  assumes "c_oninstruction (candidates c i) = Some Interceptor"
  shows "committedTunnel (fire_instruction i opcode args c) = Some i"
    and "c_onstatechange (candidates (fire_instruction i opcode args c) i)
           = map_option Public (ch_onstatechange c)"
    and "c_oninstruction (candidates (fire_instruction i opcode args c) i)
           = map_option Public (ch_oninstruction c)"
    and "c_onerror (candidates (fire_instruction i opcode args c) i)
           = map_option Public (ch_onerror c)"
    and "tunnels (fire_instruction i opcode args c) = tunnels c"
    and "c_uuid (candidates c i) = JString u \<Longrightarrow> u \<noteq> [] \<Longrightarrow>
           ch_uuid (fire_instruction i opcode args c) = JString u"
  using assms
  by (auto simp: fire_instruction_def wrap_oninstruction_def commit_tunnel_def set_candidate_def
        ch_setUUID_def ch_emit_def Let_def split: jsstr.splits option.splits)

lemma committed_closed:
  assumes "c_onstatechange (candidates c i) = Some (Public h)"
  shows "fire_statechange i CLOSED c = ch_emit (CallStateChange h CLOSED) c"
  using assms by (simp add: fire_statechange_def)

lemma connect_reuses_committed:
  assumes "committedTunnel c = Some i"
  shows "chain_connect d c = attach i (c\<lparr>connect_data := d\<rparr>)"
    and "tunnels (chain_connect d c) = tunnels c"
    and "c_onstatechange (candidates (chain_connect d c) i) = Some Interceptor"
  using assms
  by (simp_all add: chain_connect_def attach_def set_candidate_def ch_emit_def Let_def)

lemma http_disconnect_once:
  "trace (http_disconnect t)
     = trace t @ (if state t \<noteq> CLOSED \<and> onstatechange t then [OnStateChange CLOSED] else [])"
  "trace (http_disconnect (http_disconnect t)) = trace (http_disconnect t)"
  by (simp_all add: http_disconnect_def http_close_tunnel_def setState_def emit_def Let_def)

lemma static_disconnect_once:
  "delivered (trace (static_disconnect t)) = delivered (trace t)"
  "trace (static_disconnect (static_disconnect t)) = trace (static_disconnect t)"
  by (simp_all add: static_disconnect_def setState_def emit_def Let_def delivered_append)

lemma ws_disconnect_once:
  assumes "socket t"
  shows "\<exists>t'. ws_disconnect t = Done t'
          \<and> trace t' = trace t @ (if state t \<noteq> CLOSED
                                   then (if onstatechange t then [OnStateChange CLOSED] else [])
                                        @ [SocketClose]
                                   else [])
          \<and> (\<exists>t''. ws_disconnect t' = Done t'' \<and> trace t'' = trace t')"
  using assms
  by (simp add: ws_disconnect_def ws_close_tunnel_def setState_def emit_def Let_def)

section \<open>Claims\<close>

subsection \<open>C1: encoding, then decoding\<close>




subsection \<open>C7: instructions with the empty opcode\<close>

text \<open>
  C7 (as amended).  Whatever message the WebSocket tunnel receives, in whatever state
  and however long its loop runs, the effects it adds contain no call of
  \<open>oninstruction\<close> with the empty opcode.  The static tunnel has no such filter:
  \<open>instructionReceived\<close> forwards every instruction of the parser, whatever its opcode,
  when a handler is assigned.
\<close>

theorem internal_marker_isolation:
  "(\<exists>new. trace (run_state (ws_onmessage n msg t)) = trace t @ new
         \<and> [] \<notin> set (map fst (delivered new)))
   \<and> delivered (trace (instructionReceived opcode args s))
       = delivered (trace s) @ (if oninstruction s then [(opcode, args)] else [])"
proof
  show "\<exists>new. trace (run_state (ws_onmessage n msg t)) = trace t @ new
         \<and> [] \<notin> set (map fst (delivered new))"
    using grows_trans [OF grows_reset_timeout grows_ws_loop]
    unfolding ws_onmessage_def grows_def internal_free_def by blast
  show "delivered (trace (instructionReceived opcode args s))
       = delivered (trace s) @ (if oninstruction s then [(opcode, args)] else [])"
    by (simp add: instructionReceived_def emit_def delivered_append)
qed

text \<open>
  Counterexample to C7 as stated: the static tunnel hands an instruction with the
  empty opcode to \<open>oninstruction\<close>.
\<close>

theorem internal_marker_isolation_counterexample:
  "delivered (trace (instructionReceived [] [] static_example)) = [([], [])]"
  by (simp add: instructionReceived_def static_example_def emit_def)

subsection \<open>C8: the opcode as an opaque string\<close>




subsection \<open>C9: a frame with a missing length delimiter\<close>

text \<open>
  C9 (the code differs).  On the frame \<open>1.a;xyz\<close> the WebSocket tunnel delivers \<open>a\<close>,
  finds no \<open>"."\<close> and closes with an error, but goes on in the loop body with the old
  indices: it hands the instruction \<open>";"\<close> to \<open>oninstruction\<close>, again on every further
  pass, and the loop never ends.
\<close>

theorem ws_onmessage_malformed:
  "delivered (trace (run_state (ws_onmessage 3 ''1.a;xyz'' ws_example)))
     = [(''a'', []), ('';'', []), ('';'', [])]
   \<and> (\<forall>n. \<exists>t'. ws_onmessage n ''1.a;xyz'' ws_example = OutOfFuel t')"
proof
  show "delivered (trace (run_state (ws_onmessage 3 ''1.a;xyz'' ws_example)))
     = [(''a'', []), ('';'', []), ('';'', [])]"
    by code_simp
  show "\<forall>n. \<exists>t'. ws_onmessage n ''1.a;xyz'' ws_example = OutOfFuel t'"
  proof
    fix n
    show "\<exists>t'. ws_onmessage n ''1.a;xyz'' ws_example = OutOfFuel t'"
    proof (cases n)
      case 0
      then show ?thesis by (simp add: ws_onmessage_def)
    next
      case (Suc m)
      have s0: "socket (reset_timeout ws_example)"
        by (simp add: reset_timeout_def ws_example_def Let_def)
      from ws_instruction_socket [OF s0] obtain t1 where
        i: "ws_instruction [''a''] (reset_timeout ws_example) = Done t1" and s1: "socket t1"
        by blast
      have b: "ws_body ''1.a;xyz'' \<lparr>elementEnd = Undefined, startIndex = 0, elements = []\<rparr>
                 (reset_timeout ws_example)
               = Done (\<lparr>elementEnd = Num 3, startIndex = 2, elements = []\<rparr>, t1)"
        by (simp add: ws_body_def malformed_strings i)
      from ws_stuck [OF s1, of m] b Suc show ?thesis
        by (simp add: ws_onmessage_def)
    qed
  qed
qed

subsection \<open>C6: disconnect at any state\<close>

text \<open>
  C6 (the code differs).  \<open>disconnect\<close> of a WebSocket tunnel on which \<open>connect\<close> was never
  called sets the state to closed and then throws a \<open>TypeError\<close>: \<open>socket\<close> is still
  \<open>null\<close> at \<open>socket.close()\<close>.
\<close>

theorem ws_disconnect_before_connect:
  "ws_disconnect ws_new = Threw TypeError (ws_new\<lparr>state := CLOSED, trace := [OnStateChange CLOSED]\<rparr>)"
  by (simp add: ws_disconnect_def ws_close_tunnel_def ws_new_def setState_def emit_def Let_def)

subsection \<open>C10: when \<open>sendMessage\<close> does nothing\<close>



subsection \<open>C4: a timeout ends the chain, any other failure moves it on\<close>

text \<open>
  C4.  Let candidate \<open>i\<close> be attached and not committed (its error slot holds the
  chain's wrapper), and let it report an error.
  \<^item> With the status \<open>UPSTREAM_TIMEOUT\<close> the queue of candidates is emptied, the error
    is passed to the chain's own \<open>onerror\<close> at once, and no candidate is connected then
    or by any later event of a candidate.
  \<^item> With any other status and a next candidate in the queue, that candidate is taken
    off the queue, gets the chain's wrappers and is connected with the stored data.
\<close>

theorem failover_timeout_fatal:
  "c_onerror (candidates c i) = Some Interceptor \<longrightarrow>
     (code st = UPSTREAM_TIMEOUT \<and> (\<forall>e\<in>set es. \<not> is_Connect e) \<longrightarrow>
        tunnels (fire_error i st c) = []
        \<and> ch_trace (fire_error i st c)
            = ch_trace c @ (case ch_onerror c of Some h \<Rightarrow> [CallError h st] | None \<Rightarrow> [])
        \<and> connects (ch_trace (chain_run (fire_error i st c) es)) = connects (ch_trace c))
     \<and> (code st \<noteq> UPSTREAM_TIMEOUT \<and> tunnels c = n # rest \<longrightarrow>
          tunnels (fire_error i st c) = rest
          \<and> attached (fire_error i st c) = Some n
          \<and> ch_trace (fire_error i st c) = ch_trace c @ [CandidateConnect n (connect_data c)]
          \<and> c_onerror (candidates (fire_error i st c) n) = Some Interceptor
          \<and> c_onstatechange (candidates (fire_error i st c) n) = Some Interceptor
          \<and> c_oninstruction (candidates (fire_error i st c) n) = Some Interceptor)"
proof (intro impI conjI)
  assume w: "c_onerror (candidates c i) = Some Interceptor"
  assume t: "code st = UPSTREAM_TIMEOUT \<and> (\<forall>e\<in>set es. \<not> is_Connect e)"
  from w t show q: "tunnels (fire_error i st c) = []"
    by (auto simp: fire_error_def wrap_onerror_def failTunnel_def ch_emit_def Let_def
          split: option.splits)
  from w t show tr: "ch_trace (fire_error i st c)
            = ch_trace c @ (case ch_onerror c of Some h \<Rightarrow> [CallError h st] | None \<Rightarrow> [])"
    by (auto simp: fire_error_def wrap_onerror_def failTunnel_def ch_emit_def Let_def
          split: option.splits)
  from run_no_queue [OF q, of es] t
  have "connects (ch_trace (chain_run (fire_error i st c) es))
          = connects (ch_trace (fire_error i st c))" by simp
  also have "\<dots> = connects (ch_trace c)"
    unfolding tr by (simp add: connects_append split: option.splits)
  finally show "connects (ch_trace (chain_run (fire_error i st c) es)) = connects (ch_trace c)" .
next
  assume w: "c_onerror (candidates c i) = Some Interceptor"
  assume o: "code st \<noteq> UPSTREAM_TIMEOUT \<and> tunnels c = n # rest"
  from w o show "tunnels (fire_error i st c) = rest"
    "attached (fire_error i st c) = Some n"
    "ch_trace (fire_error i st c) = ch_trace c @ [CandidateConnect n (connect_data c)]"
    "c_onerror (candidates (fire_error i st c) n) = Some Interceptor"
    "c_onstatechange (candidates (fire_error i st c) n) = Some Interceptor"
    "c_oninstruction (candidates (fire_error i st c) n) = Some Interceptor"
    by (auto simp: fire_error_def wrap_onerror_def failTunnel_def attach_def set_candidate_def
          ch_emit_def Let_def)
qed

text \<open>Witness for C4: the first of three candidates fails, with a timeout and otherwise.\<close>

theorem failover_timeout_fatal_witness:
  "tunnels (fire_error 0 timeout_status chain_example) = []
   \<and> ch_trace (fire_error 0 timeout_status chain_example)
       = ch_trace chain_example @ [CallError 3 timeout_status]
   \<and> connects (ch_trace (chain_run (fire_error 0 timeout_status chain_example)
                  [StateChanged 0 CLOSED]))
       = connects (ch_trace chain_example)
   \<and> tunnels (fire_error 0 unreachable_status chain_example) = [2]
   \<and> attached (fire_error 0 unreachable_status chain_example) = Some 1
   \<and> ch_trace (fire_error 0 unreachable_status chain_example)
       = ch_trace chain_example @ [CandidateConnect 1 (Some ''d'')]"
proof -
  have w: "c_onerror (candidates chain_example 0) = Some Interceptor"
    by code_simp
  have q: "tunnels chain_example = [1, 2]" "ch_onerror chain_example = Some 3"
    "connect_data chain_example = Some ''d''"
    by code_simp+
  have t: "code timeout_status = UPSTREAM_TIMEOUT
           \<and> (\<forall>e\<in>set [StateChanged 0 CLOSED]. \<not> is_Connect e)"
    by (simp add: timeout_status_def)
  have o: "code unreachable_status \<noteq> UPSTREAM_TIMEOUT \<and> tunnels chain_example = 1 # [2]"
    by (simp add: unreachable_status_def q)
  from failover_timeout_fatal [of chain_example 0 timeout_status "[StateChanged 0 CLOSED]"] w t
  have 1: "tunnels (fire_error 0 timeout_status chain_example) = []
     \<and> ch_trace (fire_error 0 timeout_status chain_example)
         = ch_trace chain_example @ [CallError 3 timeout_status]
     \<and> connects (ch_trace (chain_run (fire_error 0 timeout_status chain_example)
                  [StateChanged 0 CLOSED]))
         = connects (ch_trace chain_example)"
    by (simp add: q)
  from failover_timeout_fatal [of chain_example 0 unreachable_status "[]" 1 "[2]"] w o
  have 2: "tunnels (fire_error 0 unreachable_status chain_example) = [2]
     \<and> attached (fire_error 0 unreachable_status chain_example) = Some 1
     \<and> ch_trace (fire_error 0 unreachable_status chain_example)
         = ch_trace chain_example @ [CandidateConnect 1 (Some ''d'')]"
    by (simp add: q)
  from 1 2 show ?thesis by blast
qed

subsection \<open>C3: what a commit is worth after a second \<open>connect\<close>\<close>

text \<open>
  C3 (the code differs).  A chain of two candidates is connected; the first candidate
  opens and is committed, and later closes.  The chain is connected again: the
  committed candidate is attached once more, which puts the chain's wrappers back on
  its slots.  When it now fails, the error is not passed on and the second candidate
  is connected.
\<close>

theorem commit_lost_on_reconnect:
  "committedTunnel (chain_run (chain_new 2) [Connect (Some ''d''), StateChanged 0 OPEN])
     = Some 0
   \<and> ch_trace (chain_run (chain_new 2)
        [Connect (Some ''d''), StateChanged 0 OPEN, StateChanged 0 CLOSED,
         Connect (Some ''d''), StateChanged 0 CONNECTING, Failed 0 unreachable_status,
         StateChanged 0 CLOSED])
     = [CandidateConnect 0 (Some ''d''), CallStateChange 1 OPEN, CallStateChange 1 CLOSED,
        CandidateConnect 0 (Some ''d''), CandidateConnect 1 (Some ''d'')]"
  by code_simp

subsection \<open>C5: the steps of the state machine\<close>




subsection \<open>C2: the order of instructions across read requests\<close>



end
